theory Spec2Isabelle
  imports Complex_Main "HOL-Library.Log_Nat"
begin

section \<open>JavaScript values used by the trading client\<close>

text \<open>
  The trading module (\<^verbatim>\<open>src/unnamed/part_000\<close>, class \<^verbatim>\<open>TradingClient\<close>) is written in
  TypeScript. Its \<^verbatim>\<open>number\<close> values are IEEE-754 double precision numbers. They are
  modelled by the type \<open>number\<close>: \<open>NaN\<close>, the two infinities, and the finite values, each
  finite double kept as the rational it denotes. Arithmetic and \<open>parseFloat\<close> compute the
  exact rational result and round it to the nearest double, ties to even, with overflow to
  an infinity (\<open>roundDouble\<close>). The two zeros are one value. Every comparison follows the
  language: it is false as soon as one side is \<open>NaN\<close>.
\<close>

datatype number = NaN | Fin rat | PInf | NInf

text \<open>\<^verbatim>\<open>ToBoolean\<close> on a number (\<^verbatim>\<open>!x\<close>, \<^verbatim>\<open>x || d\<close>, \<^verbatim>\<open>x && y\<close>): zero and NaN are falsy.\<close>

fun truthy_number :: "number \<Rightarrow> bool" where
  "truthy_number NaN = False"
| "truthy_number (Fin q) = (q \<noteq> 0)"
| "truthy_number PInf = True"
| "truthy_number NInf = True"

text \<open>\<^verbatim>\<open>a <= b\<close>; the source's \<^verbatim>\<open>a >= b\<close> is \<open>num_le b a\<close>.\<close>

fun num_le :: "number \<Rightarrow> number \<Rightarrow> bool" where
  "num_le NaN b = False"
| "num_le a NaN = False"
| "num_le NInf b = True"
| "num_le a PInf = True"
| "num_le (Fin a) (Fin b) = (a \<le> b)"
| "num_le PInf b = False"
| "num_le a NInf = False"

subsection \<open>Rounding to double precision\<close>

text \<open>
  A double has 53 significant bits and a binary exponent between -1022 and 1023; below
  \<open>2 powi - 1022\<close> the spacing stays at \<open>2 powi - 1074\<close> (subnormal numbers). \<open>expo x\<close> is
  the binary exponent of a positive rational, \<open>roundHalfEven\<close> rounds to the nearest
  integer, a tie going to the even one, and \<open>roundDouble x\<close> is the double nearest to \<open>x\<close>:
  \<open>x\<close> is rounded to a multiple of the spacing at its exponent, and a result of
  \<open>2 powi 1024\<close> or more is an infinity.
\<close>

definition pow2 :: "int \<Rightarrow> rat" where
  "pow2 e = 2 powi e"

definition roundHalfEven :: "rat \<Rightarrow> int" where
  "roundHalfEven y =
     (let f = \<lfloor>y\<rfloor>; r = y - of_int f
      in if r < 1 / 2 then f else if 1 / 2 < r then f + 1 else if even f then f else f + 1)"

definition expo :: "rat \<Rightarrow> int" where
  "expo x =
     (let d = bitlen (fst (quotient_of x)) - bitlen (snd (quotient_of x))
      in if pow2 d \<le> x then d else d - 1)"

definition roundDouble :: "rat \<Rightarrow> number" where
  "roundDouble x =
     (if x = 0 then Fin 0
      else
        let e = max (expo \<bar>x\<bar>) (- 1022);
            u = pow2 (e - 52);
            v = of_int (roundHalfEven (\<bar>x\<bar> / u)) * u
        in if pow2 1024 \<le> v then (if 0 < x then PInf else NInf)
           else Fin (if 0 < x then v else - v))"

text \<open>\<^verbatim>\<open>a - b\<close>: the exact difference of two finite doubles, rounded.\<close>

fun num_sub :: "number \<Rightarrow> number \<Rightarrow> number" where
  "num_sub NaN b = NaN"
| "num_sub a NaN = NaN"
| "num_sub (Fin a) (Fin b) = roundDouble (a - b)"
| "num_sub PInf PInf = NaN"
| "num_sub NInf NInf = NaN"
| "num_sub PInf b = PInf"
| "num_sub NInf b = NInf"
| "num_sub (Fin a) PInf = NInf"
| "num_sub (Fin a) NInf = PInf"

text \<open>Unary minus, used by \<open>parseFloat\<close> for a leading \<^verbatim>\<open>-\<close>.\<close>

fun num_neg :: "number \<Rightarrow> number" where
  "num_neg NaN = NaN"
| "num_neg (Fin a) = Fin (- a)"
| "num_neg PInf = NInf"
| "num_neg NInf = PInf"

text \<open>
  \<^verbatim>\<open>ToBoolean\<close> on a string that may be absent: \<^verbatim>\<open>undefined\<close> and the empty string are
  falsy. \<open>or_string x d\<close> is \<^verbatim>\<open>x || d\<close>.
\<close>

fun truthy_string :: "string option \<Rightarrow> bool" where
  "truthy_string None = False"
| "truthy_string (Some s) = (s \<noteq> [])"

fun or_string :: "string option \<Rightarrow> string \<Rightarrow> string" where
  "or_string None d = d"
| "or_string (Some s) d = (if s = [] then d else s)"

text \<open>\<^verbatim>\<open>x || d\<close> on numbers.\<close>

fun or_number :: "number option \<Rightarrow> number \<Rightarrow> number" where
  "or_number None d = d"
| "or_number (Some n) d = (if truthy_number n then n else d)"

text \<open>\<^verbatim>\<open>ToString\<close> of a string that may be \<^verbatim>\<open>undefined\<close>, as \<^verbatim>\<open>parseFloat\<close> applies it.\<close>

fun toString :: "string option \<Rightarrow> string" where
  "toString None = ''undefined''"
| "toString (Some s) = s"

subsection \<open>The builtin \<open>parseFloat\<close>\<close>

text \<open>
  \<^verbatim>\<open>parseFloat\<close> (ECMA-262, 19.2.4) skips leading white space, then reads the longest
  prefix that is a \<^verbatim>\<open>StrDecimalLiteral\<close>: an optional sign, then \<^verbatim>\<open>Infinity\<close> or decimal
  digits with an optional fraction and an optional exponent. Whatever follows the prefix
  is ignored; without such a prefix the result is \<open>NaN\<close>. The value of the literal is
  rounded to the nearest double. A string is its UTF-8 bytes: the white space of
  \<^verbatim>\<open>StrWhiteSpaceChar\<close> is the six ASCII characters TAB, LF, VT, FF, CR and space, the
  two-byte U+00A0, and the three-byte U+1680, U+2000 to U+200A, U+2028, U+2029, U+202F,
  U+205F, U+3000 and U+FEFF.
\<close>

definition isWhiteSpace :: "char \<Rightarrow> bool" where
  "isWhiteSpace c = (of_char c \<in> {9, 10, 11, 12, 13, 32 :: nat})"

definition isWhiteSpace2 :: "string \<Rightarrow> bool" where
  "isWhiteSpace2 bs = (map of_char bs = [194, 160 :: nat])"

definition isWhiteSpace3 :: "string \<Rightarrow> bool" where
  "isWhiteSpace3 bs =
     (case map of_char bs of
        [a, b, c] \<Rightarrow>
          (a = (225::nat) \<and> b = (154::nat) \<and> c = (128::nat))
          \<or> (a = 226 \<and> b = 128 \<and> (128 \<le> c \<and> c \<le> 138 \<or> c = 168 \<or> c = 169 \<or> c = 175))
          \<or> (a = 226 \<and> b = 129 \<and> c = 159)
          \<or> (a = 227 \<and> b = 128 \<and> c = 128)
          \<or> (a = 239 \<and> b = 187 \<and> c = 191)
      | _ \<Rightarrow> False)"

fun skipWhiteSpace :: "string \<Rightarrow> string" where
  "skipWhiteSpace [] = []"
| "skipWhiteSpace (c # r) =
     (if isWhiteSpace c then skipWhiteSpace r
      else if isWhiteSpace2 (c # take 1 r) then skipWhiteSpace (drop 1 r)
      else if isWhiteSpace3 (c # take 2 r) then skipWhiteSpace (drop 2 r)
      else c # r)"

definition isDigit :: "char \<Rightarrow> bool" where
  "isDigit c = (48 \<le> (of_char c :: nat) \<and> (of_char c :: nat) \<le> 57)"

definition digitsValue :: "string \<Rightarrow> nat" where
  "digitsValue ds = foldl (\<lambda>a c. 10 * a + (of_char c - 48)) 0 ds"

text \<open>The factor of an \<^verbatim>\<open>ExponentPart\<close> at the head of the string; 1 when there is none.\<close>

definition signedInteger :: "string \<Rightarrow> rat" where
  "signedInteger r =
     (case r of
        [] \<Rightarrow> 1
      | c # d \<Rightarrow>
          if c = CHR ''+'' then
            (if takeWhile isDigit d = [] then 1 else 10 ^ digitsValue (takeWhile isDigit d))
          else if c = CHR ''-'' then
            (if takeWhile isDigit d = [] then 1 else 1 / 10 ^ digitsValue (takeWhile isDigit d))
          else
            (if takeWhile isDigit r = [] then 1 else 10 ^ digitsValue (takeWhile isDigit r)))"

definition exponentPart :: "string \<Rightarrow> rat" where
  "exponentPart r =
     (case r of
        [] \<Rightarrow> 1
      | c # d \<Rightarrow> if c = CHR ''e'' \<or> c = CHR ''E'' then signedInteger d else 1)"

definition strUnsignedDecimalLiteral :: "string \<Rightarrow> number" where
  "strUnsignedDecimalLiteral r =
     (if take 8 r = ''Infinity'' then PInf
      else
        let ip = takeWhile isDigit r;
            r1 = dropWhile isDigit r;
            fp = (case r1 of [] \<Rightarrow> []
                  | c # r1' \<Rightarrow> if c = CHR ''.'' then takeWhile isDigit r1' else []);
            r2 = (case r1 of [] \<Rightarrow> []
                  | c # r1' \<Rightarrow> if c = CHR ''.'' then dropWhile isDigit r1' else r1)
        in if ip = [] \<and> fp = [] then NaN
           else roundDouble (of_nat (digitsValue (ip @ fp)) / 10 ^ length fp * exponentPart r2))"

definition parseFloat :: "string \<Rightarrow> number" where
  "parseFloat s =
     (case skipWhiteSpace s of
        [] \<Rightarrow> NaN
      | c # r \<Rightarrow>
          if c = CHR ''-'' then num_neg (strUnsignedDecimalLiteral r)
          else if c = CHR ''+'' then strUnsignedDecimalLiteral r
          else strUnsignedDecimalLiteral (c # r))"

section \<open>Errors\<close>

text \<open>
  The module raises \<^verbatim>\<open>new Error(message)\<close> only; it declares no error class of its own.
  An exception is a value \<open>Error message\<close>, and a function that may throw returns
  \<open>error + 'a\<close> with the exception on the left.
\<close>

datatype error = Error string

fun message :: "error \<Rightarrow> string" where
  "message (Error m) = m"

text \<open>
  Every public method has the shape
  \<^verbatim>\<open>try { ... } catch (error) { throw new Error(`<prefix>${error.message}`); }\<close>.
  \<open>rethrow prefix\<close> is that handler, applied to the outcome of the body.
\<close>

fun rethrow :: "string \<Rightarrow> (error + 'a) \<Rightarrow> (error + 'a)" where
  "rethrow prefix (Inl e) = Inl (Error (prefix @ message e))"
| "rethrow prefix (Inr v) = Inr v"

section \<open>Data model\<close>

text \<open>
  Records follow \<^verbatim>\<open>src/src/types.ts\<close>. Field names are shared between the interfaces of
  the source (\<^verbatim>\<open>side\<close>, \<^verbatim>\<open>price\<close>, \<^verbatim>\<open>size\<close>, \<^verbatim>\<open>status\<close>, \<^verbatim>\<open>id\<close>), so the fields of all
  records but \<open>Order\<close> and the configuration carry a prefix: \<open>p_\<close> for \<^verbatim>\<open>PlaceOrderParams\<close>,
  \<open>w_\<close> for the order object handed to the exchange client, \<open>resp_\<close> for its answer,
  \<open>raw_\<close> for an order record of the exchange, \<open>placed_\<close> for the result of
  \<^verbatim>\<open>placeOrder\<close>. The field \<^verbatim>\<open>size\<close> of \<open>Order\<close> is \<open>size_remaining\<close>. An optional field (\<^verbatim>\<open>f?: T\<close>) has an option type, \<open>None\<close> for
  \<^verbatim>\<open>undefined\<close>.
\<close>

record PlaceOrderParams =
  p_tokenId :: string
  p_side :: string
  p_price :: number
  p_size :: number
  p_expiration :: "number option"
  p_nonce :: "number option"

text \<open>The enum \<^verbatim>\<open>Side\<close> of the exchange client.\<close>

datatype Side = BUY | SELL

record UserOrder =
  w_tokenID :: string
  w_side :: Side
  w_price :: number
  w_size :: number
  w_expiration :: "number option"
  w_nonce :: "number option"

text \<open>The answer of \<^verbatim>\<open>createAndPostOrder\<close>; the code reads three fields of it.\<close>

record OrderResponse =
  resp_orderID :: "string option"
  resp_id :: "string option"
  resp_status :: "string option"

record PlaceOrderResult =
  placed_orderId :: "string option"
  placed_status :: string

text \<open>
  An order record as the exchange returns it. The numeric fields travel as text; each
  field that the code guards with \<^verbatim>\<open>||\<close>, and \<^verbatim>\<open>price\<close>, may be missing.
\<close>

record OpenOrder =
  raw_id :: string
  raw_asset_id :: string
  raw_side :: string
  raw_price :: "string option"
  raw_size_matched :: "string option"
  raw_original_size :: "string option"
  raw_status :: "string option"
  raw_created_at :: "number option"

record Order =
  orderId :: string
  tokenId :: string
  side :: string
  price :: number
  originalSize :: number
  size_remaining :: number
  status :: string
  timestamp :: number
  raw :: OpenOrder

subsection \<open>Configuration\<close>

record BuilderConfig =
  key :: "string option"
  secret :: "string option"
  passphrase :: "string option"
  signingServerUrl :: "string option"

record Backend =
  privateKey :: string

text \<open>
  The signer of the frontend block has type \<^verbatim>\<open>any\<close>. The constructor looks at one thing:
  whether \<^verbatim>\<open>getAddress\<close> is a function; \<open>getAddress\<close> is then the address its promise
  resolves to.
\<close>

record Signer =
  getAddress :: "string option"

record Frontend =
  signer :: "Signer option"

record TradingConfig =
  host :: "string option"
  chainId :: "number option"
  builder :: "BuilderConfig option"
  backend :: "Backend option"
  frontend :: "Frontend option"

text \<open>
  What the constructor hands to \<^verbatim>\<open>new ClobClient(...)\<close>. \<open>ApiCreds\<close> is the object
  \<^verbatim>\<open>{ key, secret, passphrase }\<close>. \<open>SdkBuilderConfig\<close> is the object built by
  \<^verbatim>\<open>new BuilderConfig({ remoteBuilderConfig: { url } })\<close> or
  \<^verbatim>\<open>new BuilderConfig({ localBuilderCreds })\<close> of the builder signing package; the variable
  \<^verbatim>\<open>builderConfig\<close> holds one of them or \<^verbatim>\<open>undefined\<close>. The first signer is the
  \<^verbatim>\<open>ethers.Wallet\<close> made from the private key, with its address.
\<close>

record ApiCreds =
  creds_key :: string
  creds_secret :: string
  creds_passphrase :: string

datatype SdkBuilderConfig = RemoteBuilderConfig string | LocalBuilderCreds ApiCreds

datatype ClobSigner = WalletSigner string string | ExternalSigner Signer

record ClobClientArgs =
  arg_host :: string
  arg_chainId :: number
  arg_signer :: ClobSigner
  arg_creds :: "ApiCreds option"
  arg_builderConfig :: "SdkBuilderConfig option"

record TradingClient =
  this_client :: ClobClientArgs
  this_config :: TradingConfig
  this_walletAddress :: "string option"

section \<open>The exchange client\<close>

text \<open>
  \<^verbatim>\<open>this.client\<close> is the \<^verbatim>\<open>ClobClient\<close> of the exchange package, which is not part of
  this repository. It is a parameter of every method: a record of what each of its five
  operations answers, an exception (\<open>Inl\<close>) or a value. \<^verbatim>\<open>getOrder\<close> answers \<open>Inr None\<close>
  when it resolves to a falsy value. Each call that a method makes is appended to a trace,
  which the method takes and returns, so that a method that never reaches the exchange
  returns the trace unchanged.
\<close>

record ClobClient =
  clob_createAndPostOrder :: "UserOrder \<Rightarrow> error + OrderResponse"
  clob_cancelOrder :: "string \<Rightarrow> error + unit"
  clob_cancelOrders :: "string list \<Rightarrow> error + unit"
  clob_getOpenOrders :: "error + OpenOrder list"
  clob_getOrder :: "string \<Rightarrow> error + OpenOrder option"

datatype call =
    CreateAndPostOrder UserOrder
  | CancelOrder string
  | CancelOrders "string list"
  | GetOpenOrders
  | GetOrder string

section \<open>Construction\<close>

text \<open>\<^verbatim>\<open>config.backend?.privateKey\<close>, \<^verbatim>\<open>config.frontend?.signer\<close> and \<^verbatim>\<open>config.builder?.f\<close>.\<close>

definition backend_privateKey :: "TradingConfig \<Rightarrow> string option" where
  "backend_privateKey config = map_option privateKey (backend config)"

definition frontend_signer :: "TradingConfig \<Rightarrow> Signer option" where
  "frontend_signer config = (case frontend config of None \<Rightarrow> None | Some f \<Rightarrow> signer f)"

definition builder_field :: "(BuilderConfig \<Rightarrow> string option) \<Rightarrow> TradingConfig \<Rightarrow> string option" where
  "builder_field f config = (case builder config of None \<Rightarrow> None | Some b \<Rightarrow> f b)"

text \<open>
  The conditional expression of lines 74 to 80:
  \<^verbatim>\<open>key && secret && passphrase ? { key, secret, passphrase } : undefined\<close>.
\<close>

definition apiCreds :: "TradingConfig \<Rightarrow> ApiCreds option" where
  "apiCreds config =
     (if truthy_string (builder_field key config)
         \<and> truthy_string (builder_field secret config)
         \<and> truthy_string (builder_field passphrase config)
      then Some \<lparr>creds_key = toString (builder_field key config),
                 creds_secret = toString (builder_field secret config),
                 creds_passphrase = toString (builder_field passphrase config)\<rparr>
      else None)"

text \<open>
  The constructor (lines 52 to 145). Two constructors of packages outside the repository
  may throw, and the constructor has no handler, so their exception leaves it.
  \<open>newWallet\<close> stands for \<^verbatim>\<open>new ethers.Wallet(key)\<close> followed by \<^verbatim>\<open>wallet.address\<close>: the
  address, or the exception thrown on a key that the wallet library does not accept.
  \<open>builderConfigError\<close> stands for the checks of \<^verbatim>\<open>new BuilderConfig(...)\<close>: the exception
  thrown on the given arguments, or \<open>None\<close> when the object is built; the object is then
  represented by its arguments. The constructor of the exchange client stores its
  arguments. In the frontend branch the address is assigned by the callback of
  \<^verbatim>\<open>signer.getAddress()\<close>, which runs after the constructor has returned: the object that
  the constructor returns has no wallet address yet.
\<close>

definition TradingClient_constructor ::
    "(string \<Rightarrow> error + string) \<Rightarrow> (SdkBuilderConfig \<Rightarrow> error option)
       \<Rightarrow> TradingConfig \<Rightarrow> error + TradingClient" where
  "TradingClient_constructor newWallet builderConfigError config =
     (if backend config = None \<and> frontend config = None then
        Inl (Error (''Trading configuration must include either 'backend' or 'frontend' mode. '' @
                    ''For bots/servers use 'backend' with privateKey. '' @
                    ''For web apps use 'frontend' with signer.''))
      else
        let host' = or_string (host config) ''https://clob.polymarket.com'';
            chainId' = or_number (chainId config) (Fin 137)
        in
          if truthy_string (backend_privateKey config) then
            (case newWallet (toString (backend_privateKey config)) of
               Inl e \<Rightarrow> Inl e
             | Inr address \<Rightarrow>
                 let builderConfig =
                       (if truthy_string (builder_field signingServerUrl config)
                        then Some (RemoteBuilderConfig (toString (builder_field signingServerUrl config)))
                        else (case apiCreds config of
                                Some creds \<Rightarrow> Some (LocalBuilderCreds creds)
                              | None \<Rightarrow> None))
                 in (case Option.bind builderConfig builderConfigError of
                       Some e \<Rightarrow> Inl e
                     | None \<Rightarrow>
                         Inr \<lparr>this_client = \<lparr>arg_host = host', arg_chainId = chainId',
                                 arg_signer = WalletSigner (toString (backend_privateKey config)) address,
                                 arg_creds = apiCreds config,
                                 arg_builderConfig = builderConfig\<rparr>,
                              this_config = config,
                              this_walletAddress = Some address\<rparr>))
          else
            (case frontend_signer config of
               Some signer' \<Rightarrow>
                 let builderConfig =
                       (if truthy_string (builder_field signingServerUrl config)
                        then Some (RemoteBuilderConfig (toString (builder_field signingServerUrl config)))
                        else None)
                 in (case Option.bind builderConfig builderConfigError of
                       Some e \<Rightarrow> Inl e
                     | None \<Rightarrow>
                         Inr \<lparr>this_client = \<lparr>arg_host = host', arg_chainId = chainId',
                                 arg_signer = ExternalSigner signer',
                                 arg_creds = None,
                                 arg_builderConfig = builderConfig\<rparr>,
                              this_config = config,
                              this_walletAddress = None\<rparr>)
             | None \<Rightarrow> Inl (Error ''Invalid trading configuration'')))"

text \<open>
  The callback \<^verbatim>\<open>(addr) => { this.walletAddress = addr; }\<close> of the frontend branch, run
  once the promise of \<^verbatim>\<open>getAddress\<close> has resolved.
\<close>

definition addressResolved :: "TradingClient \<Rightarrow> TradingClient" where
  "addressResolved tc =
     (case arg_signer (this_client tc) of
        ExternalSigner s \<Rightarrow>
          (case getAddress s of None \<Rightarrow> tc | Some addr \<Rightarrow> tc\<lparr>this_walletAddress := Some addr\<rparr>)
      | WalletSigner k a \<Rightarrow> tc)"

definition getWalletAddress :: "TradingClient \<Rightarrow> string option" where
  "getWalletAddress tc = this_walletAddress tc"

section \<open>The public methods\<close>

text \<open>
  Each method takes the exchange client, its arguments and the trace of exchange calls made
  so far, and returns its outcome with the trace. \<^verbatim>\<open>await\<close> is sequential here: a method
  runs to its end before the next one starts.
\<close>

subsection \<open>\<^verbatim>\<open>placeOrder\<close> (lines 168 to 205)\<close>

text \<open>\<^verbatim>\<open>...(x && { f: x })\<close>: the field is present when \<^verbatim>\<open>x\<close> is truthy.\<close>

fun spread_number :: "number option \<Rightarrow> number option" where
  "spread_number None = None"
| "spread_number (Some n) = (if truthy_number n then Some n else None)"

text \<open>The object literal of lines 188 to 196, with the mapping of the side of line 185.\<close>

definition wireOrder :: "PlaceOrderParams \<Rightarrow> UserOrder" where
  "wireOrder params =
     \<lparr>w_tokenID = p_tokenId params,
      w_side = (if p_side params = ''BUY'' then BUY else SELL),
      w_price = p_price params,
      w_size = p_size params,
      w_expiration = spread_number (p_expiration params),
      w_nonce = spread_number (p_nonce params)\<rparr>"

definition placeOrder ::
    "ClobClient \<Rightarrow> PlaceOrderParams \<Rightarrow> call list \<Rightarrow> (error + PlaceOrderResult) \<times> call list" where
  "placeOrder client params calls =
     apfst (rethrow ''Failed to place order: '')
       (if p_tokenId params = [] then
          (Inl (Error ''tokenId is required''), calls)
        else if p_side params = [] \<or> (p_side params \<noteq> ''BUY'' \<and> p_side params \<noteq> ''SELL'') then
          (Inl (Error (''side must be 'BUY' or 'SELL'' @ [CHR 0x27])), calls)
        else if \<not> truthy_number (p_price params) \<or> num_le (p_price params) (Fin 0)
                \<or> num_le (Fin 1) (p_price params) then
          (Inl (Error ''price must be between 0 and 1 (e.g., 0.65 for 65 cents)''), calls)
        else if \<not> truthy_number (p_size params) \<or> num_le (p_size params) (Fin 0) then
          (Inl (Error ''size must be greater than 0''), calls)
        else
          (case clob_createAndPostOrder client (wireOrder params) of
             Inl e \<Rightarrow> (Inl e, calls @ [CreateAndPostOrder (wireOrder params)])
           | Inr response \<Rightarrow>
               (Inr \<lparr>placed_orderId =
                        (if truthy_string (resp_orderID response) then resp_orderID response
                         else resp_id response),
                      placed_status = or_string (resp_status response) ''success''\<rparr>,
                calls @ [CreateAndPostOrder (wireOrder params)])))"

subsection \<open>\<^verbatim>\<open>cancelOrder\<close> and \<^verbatim>\<open>cancelOrders\<close> (lines 219 to 252)\<close>

definition cancelOrder ::
    "ClobClient \<Rightarrow> string \<Rightarrow> call list \<Rightarrow> (error + unit) \<times> call list" where
  "cancelOrder client orderId' calls =
     apfst (rethrow ''Failed to cancel order: '')
       (if orderId' = [] then (Inl (Error ''orderId is required''), calls)
        else (clob_cancelOrder client orderId', calls @ [CancelOrder orderId']))"

text \<open>The argument is \<open>None\<close> when the caller passes \<^verbatim>\<open>undefined\<close> or \<^verbatim>\<open>null\<close>.\<close>

definition cancelOrders ::
    "ClobClient \<Rightarrow> string list option \<Rightarrow> call list \<Rightarrow> (error + unit) \<times> call list" where
  "cancelOrders client orderIds calls =
     apfst (rethrow ''Failed to cancel orders: '')
       (case orderIds of
          None \<Rightarrow> (Inl (Error ''orderIds array is required''), calls)
        | Some ids \<Rightarrow>
            if length ids = 0 then (Inl (Error ''orderIds array is required''), calls)
            else (clob_cancelOrders client ids, calls @ [CancelOrders ids]))"

subsection \<open>\<^verbatim>\<open>getOpenOrders\<close> and \<^verbatim>\<open>getOrder\<close> (lines 270 to 338)\<close>

text \<open>
  \<open>now\<close> is the value of \<^verbatim>\<open>Date.now()\<close>. The two methods repeat the same mapping of an
  exchange record, up to the default of the status.
\<close>

definition getOpenOrders ::
    "ClobClient \<Rightarrow> string option \<Rightarrow> number \<Rightarrow> call list \<Rightarrow> (error + Order list) \<times> call list" where
  "getOpenOrders client address now calls =
     apfst (rethrow ''Failed to get open orders: '')
       (case clob_getOpenOrders client of
          Inl e \<Rightarrow> (Inl e, calls @ [GetOpenOrders])
        | Inr response \<Rightarrow>
            (Inr (map (\<lambda>order.
                    let sizeMatched = parseFloat (or_string (raw_size_matched order) ''0'');
                        originalSize' = parseFloat (or_string (raw_original_size order) ''0'');
                        remainingSize = num_sub originalSize' sizeMatched
                    in \<lparr>orderId = raw_id order,
                        tokenId = raw_asset_id order,
                        side = raw_side order,
                        price = parseFloat (toString (raw_price order)),
                        originalSize = originalSize',
                        size_remaining = remainingSize,
                        status = or_string (raw_status order) ''open'',
                        timestamp = or_number (raw_created_at order) now,
                        raw = order\<rparr>) response),
             calls @ [GetOpenOrders]))"

definition getOrder ::
    "ClobClient \<Rightarrow> string \<Rightarrow> number \<Rightarrow> call list \<Rightarrow> (error + Order option) \<times> call list" where
  "getOrder client orderId' now calls =
     apfst (rethrow ''Failed to get order: '')
       (if orderId' = [] then (Inl (Error ''orderId is required''), calls)
        else
          (case clob_getOrder client orderId' of
             Inl e \<Rightarrow> (Inl e, calls @ [GetOrder orderId'])
           | Inr None \<Rightarrow> (Inr None, calls @ [GetOrder orderId'])
           | Inr (Some order) \<Rightarrow>
               (let sizeMatched = parseFloat (or_string (raw_size_matched order) ''0'');
                    originalSize' = parseFloat (or_string (raw_original_size order) ''0'');
                    remainingSize = num_sub originalSize' sizeMatched
                in (Inr (Some \<lparr>orderId = raw_id order,
                               tokenId = raw_asset_id order,
                               side = raw_side order,
                               price = parseFloat (toString (raw_price order)),
                               originalSize = originalSize',
                               size_remaining = remainingSize,
                               status = or_string (raw_status order) ''unknown'',
                               timestamp = or_number (raw_created_at order) now,
                               raw = order\<rparr>),
                    calls @ [GetOrder orderId']))))"

section \<open>Test doubles\<close>

text \<open>
  Concrete collaborators for the closed theorems below. \<open>stubWallet\<close> knows one key, the
  32-byte key of value 1, with the address that belongs to it, and refuses every other
  key. \<open>stubBuilderConfigError\<close> accepts a URL that starts with \<^verbatim>\<open>http://\<close> or
  \<^verbatim>\<open>https://\<close> and credentials whose three parts are non-empty. \<open>stubClient\<close> is an
  exchange client that answers with fixed values, \<open>failingClient\<close> one that fails on every
  call. \<open>rawOrder\<close> is an exchange order record with the four fields under study left
  open, \<open>echoResponse\<close> the exchange answer of a matched order, \<open>sampleParams\<close> an order
  request and \<open>sampleConfig\<close> a configuration with default host and chain.
\<close>

definition sampleKey :: string where
  "sampleKey = ''0x0000000000000000000000000000000000000000000000000000000000000001''"

definition sampleAddress :: string where
  "sampleAddress = ''0x7E5F4552091A69125d5DfCb7b8C2659029395Bdf''"

definition stubWallet :: "string \<Rightarrow> error + string" where
  "stubWallet k = (if k = sampleKey then Inr sampleAddress else Inl (Error ''invalid private key''))"

definition stubBuilderConfigError :: "SdkBuilderConfig \<Rightarrow> error option" where
  "stubBuilderConfigError b =
     (case b of
        RemoteBuilderConfig url \<Rightarrow>
          if take 7 url = ''http://'' \<or> take 8 url = ''https://'' then None
          else Some (Error ''invalid remote url!'')
      | LocalBuilderCreds creds \<Rightarrow>
          if creds_key creds = [] \<or> creds_secret creds = [] \<or> creds_passphrase creds = []
          then Some (Error ''invalid local builder credentials!'')
          else None)"

definition stubClient :: "OrderResponse \<Rightarrow> OpenOrder list \<Rightarrow> OpenOrder option \<Rightarrow> ClobClient" where
  "stubClient response listed found =
     \<lparr>clob_createAndPostOrder = (\<lambda>order. Inr response),
      clob_cancelOrder = (\<lambda>orderId'. Inr ()),
      clob_cancelOrders = (\<lambda>orderIds. Inr ()),
      clob_getOpenOrders = Inr listed,
      clob_getOrder = (\<lambda>orderId'. Inr found)\<rparr>"

definition failingClient :: "string \<Rightarrow> ClobClient" where
  "failingClient m =
     \<lparr>clob_createAndPostOrder = (\<lambda>order. Inl (Error m)),
      clob_cancelOrder = (\<lambda>orderId'. Inl (Error m)),
      clob_cancelOrders = (\<lambda>orderIds. Inl (Error m)),
      clob_getOpenOrders = Inl (Error m),
      clob_getOrder = (\<lambda>orderId'. Inl (Error m))\<rparr>"

definition rawOrder ::
    "string option \<Rightarrow> string option \<Rightarrow> string option \<Rightarrow> string option \<Rightarrow> OpenOrder" where
  "rawOrder original matched price' status' =
     \<lparr>raw_id = ''O1'', raw_asset_id = ''T1'', raw_side = ''BUY'', raw_price = price',
      raw_size_matched = matched, raw_original_size = original, raw_status = status',
      raw_created_at = Some (Fin 1700000000)\<rparr>"

definition echoResponse :: OrderResponse where
  "echoResponse = \<lparr>resp_orderID = Some ''O1'', resp_id = None, resp_status = Some ''matched''\<rparr>"

definition sampleParams :: "number \<Rightarrow> PlaceOrderParams" where
  "sampleParams price' =
     \<lparr>p_tokenId = ''T1'', p_side = ''BUY'', p_price = price', p_size = Fin 10,
      p_expiration = None, p_nonce = None\<rparr>"

definition sampleConfig ::
    "BuilderConfig option \<Rightarrow> Backend option \<Rightarrow> Frontend option \<Rightarrow> TradingConfig" where
  "sampleConfig builder' backend' frontend' =
     \<lparr>host = None, chainId = None, builder = builder', backend = backend', frontend = frontend'\<rparr>"

section \<open>Facts about rounding\<close>

lemma pow2_pos: "0 < pow2 e"
  by (simp add: pow2_def)

lemma pow2_add: "pow2 (a + b) = pow2 a * pow2 b"
  by (simp add: pow2_def power_int_add)

lemma pow2_diff: "pow2 (a - b) = pow2 a / pow2 b"
  by (simp add: pow2_def power_int_diff)

lemma pow2_nat: "0 \<le> e \<Longrightarrow> pow2 e = of_int (2 ^ nat e)"
  by (simp add: pow2_def power_int_def)

lemma pow2_mono: "m \<le> n \<Longrightarrow> pow2 m \<le> pow2 n"
  unfolding pow2_def by (rule power_int_increasing) simp_all

lemma pow2_le_D: "pow2 m \<le> pow2 n \<Longrightarrow> m \<le> n"
proof (rule ccontr)
  assume le: "pow2 m \<le> pow2 n" and "\<not> m \<le> n"
  then have "n < m" by simp
  then have "(2::rat) powi n < 2 powi m" by (rule power_int_strict_increasing) simp
  with le show False by (simp add: pow2_def)
qed

lemma bitlen_pow2_bounds:
  assumes "0 < (p::int)"
  shows "pow2 (bitlen p - 1) \<le> of_int p" and "of_int p < pow2 (bitlen p)"
proof -
  have b: "1 \<le> bitlen p" using assms by (auto simp: bitlen_alt_def)
  have l: "2 ^ nat (bitlen p - 1) \<le> p" and u: "p < 2 ^ nat (bitlen p)"
    using bitlen_bounds [OF assms] by auto
  have "(of_int (2 ^ nat (bitlen p - 1)) :: rat) \<le> of_int p"
    using l by (simp only: of_int_le_iff)
  then show "pow2 (bitlen p - 1) \<le> of_int p"
    using b by (simp add: pow2_nat)
  have "(of_int p :: rat) < of_int (2 ^ nat (bitlen p))"
    using u by (simp only: of_int_less_iff)
  then show "of_int p < pow2 (bitlen p)"
    using b by (simp add: pow2_nat)
qed

lemma expo_bounds:
  assumes "0 < x"
  shows "pow2 (expo x) \<le> x" and "x < pow2 (expo x + 1)"
proof -
  obtain p q where pq: "quotient_of x = (p, q)" by (cases "quotient_of x")
  have q: "0 < q" using pq by (rule quotient_of_denom_pos)
  have x: "x = of_int p / of_int q" using pq by (rule quotient_of_div)
  have p: "0 < p" using assms q x by (simp add: zero_less_divide_iff)
  define d where "d = bitlen p - bitlen q"
  have lo: "pow2 (d - 1) \<le> x"
  proof -
    have "d - 1 = (bitlen p - 1) - bitlen q" by (simp add: d_def)
    then have "pow2 (d - 1) = pow2 (bitlen p - 1) / pow2 (bitlen q)"
      by (simp only: pow2_diff)
    also have "\<dots> \<le> of_int p / of_int q"
      using bitlen_pow2_bounds [OF p] bitlen_pow2_bounds [OF q] q p
      by (intro frac_le) auto
    finally show ?thesis using x by simp
  qed
  have hi: "x < pow2 (d + 1)"
  proof -
    have "of_int p / of_int q < pow2 (bitlen p) / pow2 (bitlen q - 1)"
      using bitlen_pow2_bounds [OF p] bitlen_pow2_bounds [OF q] q p pow2_pos [of "bitlen q - 1"]
      by (intro frac_less) auto
    also have "\<dots> = pow2 (bitlen p - (bitlen q - 1))"
      by (simp only: pow2_diff)
    also have "bitlen p - (bitlen q - 1) = d + 1" by (simp add: d_def)
    finally show ?thesis using x by simp
  qed
  have e: "expo x = (if pow2 d \<le> x then d else d - 1)"
    by (simp add: expo_def pq Let_def d_def)
  show "pow2 (expo x) \<le> x" using lo by (simp add: e)
  show "x < pow2 (expo x + 1)" using hi by (auto simp add: e not_le)
qed



lemma roundHalfEven_of_int: "roundHalfEven (of_int k) = k"
  by (simp add: roundHalfEven_def Let_def)

lemma grid_divides:
  assumes x: "0 < x" and xo: "x \<le> o'" and o: "o' = of_int k * pow2 j"
    and k: "k \<le> 2 ^ 53" and j: "- 1074 \<le> j"
  shows "\<exists>K. o' = of_int K * pow2 (max (expo x) (- 1022) - 52)"
proof -
  define t where "t = max (expo x) (- 1022) - 52"
  have kr: "(of_int k :: rat) \<le> of_int (2 ^ 53)" using k by (simp only: of_int_le_iff)
  have up: "of_int k * pow2 j \<le> pow2 (53 + j)"
  proof -
    have "of_int k * pow2 j \<le> of_int (2 ^ 53) * pow2 j"
      using kr pow2_pos [of j] by (simp only: mult_right_mono less_imp_le)
    also have "of_int (2 ^ 53) = pow2 53" by (simp add: pow2_nat)
    finally show ?thesis by (simp only: pow2_add)
  qed
  have "\<exists>K. o' = of_int K * pow2 t"
  proof (cases "t \<le> j")
    case True
    have "j = (j - t) + t" by simp
    then have "pow2 j = pow2 (j - t) * pow2 t" by (metis pow2_add)
    also have "pow2 (j - t) = of_int (2 ^ nat (j - t))"
      using True by (simp add: pow2_nat)
    finally have "o' = of_int (k * 2 ^ nat (j - t)) * pow2 t"
      using o by simp
    then show ?thesis ..
  next
    case False
    then have e: "max (expo x) (- 1022) = expo x" using j by (auto simp: t_def)
    have "pow2 (expo x) \<le> x" using expo_bounds(1) [OF x] .
    also have "x \<le> of_int k * pow2 j" using xo o by simp
    also note up
    finally have "expo x \<le> 53 + j" by (rule pow2_le_D)
    with False e have ex: "expo x = 53 + j" by (simp add: t_def)
    have "pow2 (53 + j) \<le> of_int k * pow2 j"
      using expo_bounds(1) [OF x] xo o ex by simp
    with up have "o' = pow2 (53 + j)" using o by simp
    also have "53 + j = 52 + t" using e ex by (simp add: t_def)
    also have "pow2 (52 + t) = of_int (2 ^ 52) * pow2 t"
      by (simp only: pow2_add) (simp add: pow2_nat)
    finally show ?thesis ..
  qed
  then show ?thesis by (simp only: t_def)
qed

lemma roundDouble_pos:
  assumes "0 < x"
  shows "roundDouble x =
     (if pow2 1024 \<le> of_int (roundHalfEven (x / pow2 (max (expo x) (- 1022) - 52)))
                          * pow2 (max (expo x) (- 1022) - 52)
      then PInf
      else Fin (of_int (roundHalfEven (x / pow2 (max (expo x) (- 1022) - 52)))
                * pow2 (max (expo x) (- 1022) - 52)))"
  using assms by (simp add: roundDouble_def Let_def)

lemma roundDouble_neg: "roundDouble (- x) = num_neg (roundDouble x)"
  by (simp add: roundDouble_def Let_def)


lemma roundDouble_exact:
  assumes x: "0 < x" and o: "x = of_int k * pow2 j"
    and k: "k \<le> 2 ^ 53" and j: "- 1074 \<le> j" and fin: "x < pow2 1024"
  shows "roundDouble x = Fin x"
proof -
  define u where "u = pow2 (max (expo x) (- 1022) - 52)"
  have u: "0 < u" by (simp add: u_def pow2_pos)
  obtain K where K: "x = of_int K * u"
    using grid_divides [OF x order_refl o k j] unfolding u_def by blast
  have "x / u = of_int K" using u by (subst K) simp
  then have "roundHalfEven (x / u) = K" by (simp only: roundHalfEven_of_int)
  then have v: "of_int (roundHalfEven (x / u)) * u = x" using K by simp
  have "\<not> pow2 1024 \<le> of_int (roundHalfEven (x / u)) * u" using fin by (simp only: v not_le)
  then have "roundDouble x = Fin (of_int (roundHalfEven (x / u)) * u)"
    unfolding u_def by (simp only: roundDouble_pos [OF x] if_False)
  then show ?thesis by (simp only: v)
qed


lemma roundDouble_of_int:
  assumes "0 < k" and "k \<le> 2 ^ 53"
  shows "roundDouble (of_int k) = Fin (of_int k)"
proof (rule roundDouble_exact [where k = k and j = 0])
  show "0 < (of_int k :: rat)" using assms by simp
  show "(of_int k :: rat) = of_int k * pow2 0" by (simp add: pow2_def)
  show "k \<le> 2 ^ 53" by fact
  show "- 1074 \<le> (0::int)" by simp
  have "(of_int k :: rat) \<le> of_int (2 ^ 53)" using assms by (simp only: of_int_le_iff)
  also have "\<dots> = pow2 53" by (simp add: pow2_nat)
  also have "\<dots> < pow2 54" by (simp only: pow2_nat) simp
  also have "\<dots> \<le> pow2 1024" by (rule pow2_mono) simp
  finally show "(of_int k :: rat) < pow2 1024" .
qed

lemma roundDouble_numeral:
  "(numeral n :: int) \<le> 2 ^ 53 \<Longrightarrow> roundDouble (numeral n) = Fin (numeral n)"
  using roundDouble_of_int [of "numeral n"] by simp

lemma roundDouble_half: "roundDouble (1 / 2) = Fin (1 / 2)"
proof (rule roundDouble_exact [where k = 1 and j = "- 1"])
  show "(1 / 2 :: rat) = of_int 1 * pow2 (- 1)" by (simp add: pow2_def)
  have "(1 / 2 :: rat) < pow2 0" by (simp add: pow2_def)
  also have "\<dots> \<le> pow2 1024" by (rule pow2_mono) simp
  finally show "(1 / 2 :: rat) < pow2 1024" .
qed simp_all

lemma roundDouble_zero: "roundDouble 0 = Fin 0"
  by (simp add: roundDouble_def)


section \<open>Facts about \<open>parseFloat\<close>\<close>

lemmas parseFloat_defs =
  parseFloat_def strUnsignedDecimalLiteral_def isWhiteSpace_def isWhiteSpace2_def
  isWhiteSpace3_def isDigit_def digitsValue_def exponentPart_def signedInteger_def
  roundDouble_zero roundDouble_numeral roundDouble_half


lemma parseFloat_zero: "parseFloat ''0'' = Fin 0"
  by (simp add: parseFloat_defs)


lemma parseFloat_or_zero:
  "parseFloat (or_string x ''0'') = (if truthy_string x then parseFloat (toString x) else Fin 0)"
  by (cases x) (simp_all add: parseFloat_zero)






section \<open>Validation before the exchange is reached\<close>

text \<open>
  Claim C3. For every order request whose price is at most 0 or at least 1, \<open>placeOrder\<close>
  fails with a validation error and the exchange is never invoked. The method checks the
  token and the side before the price, so the error is the first of the three checks that
  fails; in each case it is raised before \<^verbatim>\<open>createAndPostOrder\<close>, re-thrown with the prefix
  of the method, and the trace of exchange calls is returned as it was received.
\<close>

theorem C3_price_out_of_range_rejected:
  assumes "num_le (p_price params) (Fin 0) \<or> num_le (Fin 1) (p_price params)"
  shows "\<exists>m. m \<in> {''tokenId is required'', ''side must be 'BUY' or 'SELL'' @ [CHR 0x27],
                  ''price must be between 0 and 1 (e.g., 0.65 for 65 cents)''}
           \<and> placeOrder client params calls = (Inl (Error (''Failed to place order: '' @ m)), calls)"
  using assms by (simp add: placeOrder_def)

theorem C3_price_out_of_range_rejected_witness:
  "num_le (Fin 1) (Fin 1)
   \<and> placeOrder (stubClient echoResponse [] None) (sampleParams (Fin 1)) []
      = (Inl (Error ''Failed to place order: price must be between 0 and 1 (e.g., 0.65 for 65 cents)''), [])"
  using C3_price_out_of_range_rejected [where params = "sampleParams (Fin 1)"
      and client = "stubClient echoResponse [] None" and calls = "[]"]
  by (simp add: placeOrder_def sampleParams_def)

text \<open>
  Claim C7. \<open>cancelOrders\<close> fails with a validation error when the list of order ids is
  empty or absent, and the batch cancellation of the exchange is not invoked: the trace
  comes back unchanged.
\<close>

theorem C7_cancelOrders_empty_rejected:
  assumes "orderIds = None \<or> orderIds = Some []"
  shows "cancelOrders client orderIds calls
           = (Inl (Error ''Failed to cancel orders: orderIds array is required''), calls)"
  using assms by (auto simp add: cancelOrders_def)

theorem C7_cancelOrders_empty_rejected_witness:
  "cancelOrders (stubClient echoResponse [] None) (Some []) []
     = (Inl (Error ''Failed to cancel orders: orderIds array is required''), [])
   \<and> cancelOrders (stubClient echoResponse [] None) None []
     = (Inl (Error ''Failed to cancel orders: orderIds array is required''), [])"
  using
    C7_cancelOrders_empty_rejected [where orderIds = "Some []"
      and client = "stubClient echoResponse [] None" and calls = "[]"]
    C7_cancelOrders_empty_rejected [where orderIds = None
      and client = "stubClient echoResponse [] None" and calls = "[]"]
  by simp

section \<open>Reading orders\<close>

text \<open>
  Claim C9. The result of \<open>getOpenOrders\<close> does not depend on its address argument: with
  the same exchange client, clock and trace, any two addresses, absent ones included, give
  the same outcome.
\<close>

theorem C9_getOpenOrders_ignores_address:
  "getOpenOrders client address1 now calls = getOpenOrders client address2 now calls"
  by (simp add: getOpenOrders_def)

text \<open>
  Claim C6. For a non-empty order id, \<open>getOrder\<close> returns \<^verbatim>\<open>null\<close> (\<open>Inr None\<close>) when the
  exchange reports no such order, and raises the error of the exchange, wrapped with the
  prefix of the method, when the call to the exchange fails. The two outcomes differ, and in
  both the exchange was asked exactly once.
\<close>

theorem C6_getOrder_not_found_vs_failure:
  assumes "orderId' \<noteq> []"
  shows "(clob_getOrder client orderId' = Inr None \<longrightarrow>
            getOrder client orderId' now calls = (Inr None, calls @ [GetOrder orderId']))
       \<and> (clob_getOrder client orderId' = Inl e \<longrightarrow>
            getOrder client orderId' now calls
              = (Inl (Error (''Failed to get order: '' @ message e)), calls @ [GetOrder orderId']))
       \<and> (Inr None :: error + Order option) \<noteq> Inl (Error (''Failed to get order: '' @ message e))"
  using assms by (simp add: getOrder_def)

theorem C6_getOrder_not_found_vs_failure_witness:
  "getOrder (stubClient echoResponse [] None) ''O1'' (Fin 0) [] = (Inr None, [GetOrder ''O1''])
   \<and> getOrder (failingClient ''socket hang up'') ''O1'' (Fin 0) []
     = (Inl (Error ''Failed to get order: socket hang up''), [GetOrder ''O1''])"
  using
    C6_getOrder_not_found_vs_failure [where orderId' = "''O1''"
      and client = "stubClient echoResponse [] None" and now = "Fin 0" and calls = "[]"]
    C6_getOrder_not_found_vs_failure [where orderId' = "''O1''"
      and client = "failingClient ''socket hang up''" and now = "Fin 0" and calls = "[]"
      and e = "Error ''socket hang up''"]
  by (simp add: stubClient_def failingClient_def)

text \<open>
  Claim C8. When the exchange omits the status of an order record, the normalized order has
  the status \<^verbatim>\<open>open\<close> in the listing (\<open>getOpenOrders\<close>) and \<^verbatim>\<open>unknown\<close> in the lookup of
  one order (\<open>getOrder\<close>); the two defaults differ.
\<close>

theorem C8_status_defaults:
  "(clob_getOpenOrders client = Inr response \<longrightarrow>
      (\<exists>orders. fst (getOpenOrders client address now calls) = Inr orders
         \<and> length orders = length response
         \<and> (\<forall>i<length response. raw_status (response ! i) = None \<longrightarrow> status (orders ! i) = ''open'')))
   \<and> (orderId' \<noteq> [] \<and> clob_getOrder client orderId' = Inr (Some order) \<and> raw_status order = None \<longrightarrow>
      (\<exists>n. fst (getOrder client orderId' now calls) = Inr (Some n) \<and> status n = ''unknown''))
   \<and> ''open'' \<noteq> ''unknown''"
  by (simp add: getOpenOrders_def getOrder_def Let_def)

theorem C8_status_defaults_witness:
  "(\<exists>orders. fst (getOpenOrders
                    (stubClient echoResponse [rawOrder (Some ''10'') (Some ''4'') (Some ''0.5'') None] None)
                    None (Fin 0) []) = Inr orders
       \<and> length orders = 1 \<and> status (orders ! 0) = ''open'')
   \<and> (\<exists>n. fst (getOrder
                  (stubClient echoResponse [] (Some (rawOrder (Some ''10'') (Some ''4'') (Some ''0.5'') None)))
                  ''O1'' (Fin 0) []) = Inr (Some n)
       \<and> status n = ''unknown'')"
proof
  show "\<exists>orders. fst (getOpenOrders
                    (stubClient echoResponse [rawOrder (Some ''10'') (Some ''4'') (Some ''0.5'') None] None)
                    None (Fin 0) []) = Inr orders
       \<and> length orders = 1 \<and> status (orders ! 0) = ''open''"
    using C8_status_defaults [where client = "stubClient echoResponse [rawOrder (Some ''10'') (Some ''4'') (Some ''0.5'') None] None"
        and response = "[rawOrder (Some ''10'') (Some ''4'') (Some ''0.5'') None]" and address = None
        and now = "Fin 0" and calls = "[]", THEN conjunct1]
    by (auto simp add: stubClient_def rawOrder_def)
next
  show "\<exists>n. fst (getOrder
                  (stubClient echoResponse [] (Some (rawOrder (Some ''10'') (Some ''4'') (Some ''0.5'') None)))
                  ''O1'' (Fin 0) []) = Inr (Some n)
       \<and> status n = ''unknown''"
    using C8_status_defaults [where client = "stubClient echoResponse [] (Some (rawOrder (Some ''10'') (Some ''4'') (Some ''0.5'') None))"
        and orderId' = "''O1''" and order = "rawOrder (Some ''10'') (Some ''4'') (Some ''0.5'') None"
        and now = "Fin 0" and calls = "[]", THEN conjunct2, THEN conjunct1]
    by (auto simp add: stubClient_def rawOrder_def)
qed

section \<open>The answer of \<open>placeOrder\<close>\<close>

text \<open>
  Claim C10. When the request passes validation and the answer of the exchange to the
  submission has no status, \<open>placeOrder\<close> returns the status \<^verbatim>\<open>success\<close>, a default made
  by the client. The returned order id is the \<^verbatim>\<open>orderID\<close> of the answer when it has one, and
  its \<^verbatim>\<open>id\<close> when \<^verbatim>\<open>orderID\<close> is absent.
\<close>

theorem C10_placeOrder_response_defaults:
  assumes "p_tokenId params \<noteq> []"
    and "p_side params = ''BUY'' \<or> p_side params = ''SELL''"
    and "truthy_number (p_price params)"
    and "\<not> num_le (p_price params) (Fin 0)" and "\<not> num_le (Fin 1) (p_price params)"
    and "truthy_number (p_size params)" and "\<not> num_le (p_size params) (Fin 0)"
    and "clob_createAndPostOrder client (wireOrder params) = Inr response"
    and "resp_status response = None"
  shows "\<exists>r. placeOrder client params calls = (Inr r, calls @ [CreateAndPostOrder (wireOrder params)])
           \<and> placed_status r = ''success''
           \<and> (resp_orderID response = None \<longrightarrow> placed_orderId r = resp_id response)
           \<and> (\<forall>s. resp_orderID response = Some s \<and> s \<noteq> [] \<longrightarrow> placed_orderId r = Some s)"
  using assms by (auto simp add: placeOrder_def)

theorem C10_placeOrder_response_defaults_witness:
  "(\<exists>r. fst (placeOrder
               (stubClient \<lparr>resp_orderID = None, resp_id = Some ''O2'', resp_status = None\<rparr> [] None)
               (sampleParams (Fin (13 / 20))) []) = Inr r
       \<and> placed_status r = ''success'' \<and> placed_orderId r = Some ''O2'')
   \<and> (\<exists>r. fst (placeOrder
               (stubClient \<lparr>resp_orderID = Some ''O1'', resp_id = Some ''O2'', resp_status = None\<rparr> [] None)
               (sampleParams (Fin (13 / 20))) []) = Inr r
       \<and> placed_status r = ''success'' \<and> placed_orderId r = Some ''O1'')"
proof -
  let ?p = "sampleParams (Fin (13 / 20))"
  have v: "p_tokenId ?p \<noteq> []" "p_side ?p = ''BUY'' \<or> p_side ?p = ''SELL''"
    "truthy_number (p_price ?p)" "\<not> num_le (p_price ?p) (Fin 0)" "\<not> num_le (Fin 1) (p_price ?p)"
    "truthy_number (p_size ?p)" "\<not> num_le (p_size ?p) (Fin 0)"
    by (simp_all add: sampleParams_def)
  let ?a = "\<lparr>resp_orderID = None, resp_id = Some ''O2'', resp_status = None\<rparr>"
  let ?b = "\<lparr>resp_orderID = Some ''O1'', resp_id = Some ''O2'', resp_status = None\<rparr>"
  have a: "clob_createAndPostOrder (stubClient ?a [] None) (wireOrder ?p) = Inr ?a"
    and b: "clob_createAndPostOrder (stubClient ?b [] None) (wireOrder ?p) = Inr ?b"
    by (simp_all add: stubClient_def)
  have "\<exists>r. fst (placeOrder (stubClient ?a [] None) ?p []) = Inr r
       \<and> placed_status r = ''success'' \<and> placed_orderId r = Some ''O2''"
    using C10_placeOrder_response_defaults [OF v a, where calls = "[]"] by auto
  moreover have "\<exists>r. fst (placeOrder (stubClient ?b [] None) ?p []) = Inr r
       \<and> placed_status r = ''success'' \<and> placed_orderId r = Some ''O1''"
    using C10_placeOrder_response_defaults [OF v b, where calls = "[]"] by auto
  ultimately show ?thesis by simp
qed

section \<open>Normalization of exchange order records\<close>



text \<open>
  Claim C2, as amended. Normalization raises no error on any exchange order record, in the
  listing and in the lookup of one order. An absent or empty \<^verbatim>\<open>original_size\<close> or
  \<^verbatim>\<open>size_matched\<close> is read as 0; any other text, and the price, goes through
  \<open>parseFloat\<close>, whose answer for text that is no number is \<open>NaN\<close>; the remaining size is the
  difference of the two values so read.
\<close>

theorem C2_normalization_never_raises:
  "(clob_getOpenOrders client = Inr response \<longrightarrow>
      (\<exists>orders. fst (getOpenOrders client address now calls) = Inr orders
         \<and> length orders = length response
         \<and> (\<forall>i<length response.
               originalSize (orders ! i)
                 = (if truthy_string (raw_original_size (response ! i))
                    then parseFloat (toString (raw_original_size (response ! i))) else Fin 0)
             \<and> size_remaining (orders ! i)
                 = num_sub (originalSize (orders ! i))
                     (if truthy_string (raw_size_matched (response ! i))
                      then parseFloat (toString (raw_size_matched (response ! i))) else Fin 0)
             \<and> price (orders ! i) = parseFloat (toString (raw_price (response ! i))))))
   \<and> (orderId' \<noteq> [] \<and> clob_getOrder client orderId' = Inr (Some order) \<longrightarrow>
      (\<exists>n. fst (getOrder client orderId' now calls) = Inr (Some n)
         \<and> originalSize n
             = (if truthy_string (raw_original_size order)
                then parseFloat (toString (raw_original_size order)) else Fin 0)
         \<and> size_remaining n
             = num_sub (originalSize n)
                 (if truthy_string (raw_size_matched order)
                  then parseFloat (toString (raw_size_matched order)) else Fin 0)
         \<and> price n = parseFloat (toString (raw_price order))))"
  by (simp add: getOpenOrders_def getOrder_def Let_def parseFloat_or_zero)

theorem C2_normalization_never_raises_witness:
  "(\<exists>orders. fst (getOpenOrders (stubClient echoResponse [rawOrder None (Some ''abc'') None None] None)
                     None (Fin 0) []) = Inr orders
       \<and> length orders = 1
       \<and> originalSize (orders ! 0) = Fin 0
       \<and> size_remaining (orders ! 0) = NaN
       \<and> price (orders ! 0) = NaN)
   \<and> (\<exists>n. fst (getOrder (stubClient echoResponse [] (Some (rawOrder (Some ''x'') (Some []) (Some ''0.5'') None)))
                  ''O1'' (Fin 0) []) = Inr (Some n)
       \<and> originalSize n = NaN
       \<and> size_remaining n = NaN
       \<and> price n = Fin (1 / 2))"
proof
  show "\<exists>orders. fst (getOpenOrders (stubClient echoResponse [rawOrder None (Some ''abc'') None None] None)
                     None (Fin 0) []) = Inr orders
       \<and> length orders = 1
       \<and> originalSize (orders ! 0) = Fin 0
       \<and> size_remaining (orders ! 0) = NaN
       \<and> price (orders ! 0) = NaN"
    using C2_normalization_never_raises [where client = "stubClient echoResponse [rawOrder None (Some ''abc'') None None] None"
        and response = "[rawOrder None (Some ''abc'') None None]" and address = None
        and now = "Fin 0" and calls = "[]", THEN conjunct1]
    by (auto simp add: stubClient_def rawOrder_def parseFloat_defs)
next
  show "\<exists>n. fst (getOrder (stubClient echoResponse [] (Some (rawOrder (Some ''x'') (Some []) (Some ''0.5'') None)))
                  ''O1'' (Fin 0) []) = Inr (Some n)
       \<and> originalSize n = NaN
       \<and> size_remaining n = NaN
       \<and> price n = Fin (1 / 2)"
    using C2_normalization_never_raises [where client = "stubClient echoResponse [] (Some (rawOrder (Some ''x'') (Some []) (Some ''0.5'') None))"
        and orderId' = "''O1''" and order = "rawOrder (Some ''x'') (Some []) (Some ''0.5'') None"
        and now = "Fin 0" and calls = "[]", THEN conjunct2]
    by (auto simp add: stubClient_def rawOrder_def parseFloat_defs)
qed

text \<open>
  Claim C2, as stated, asks for an error on a record whose numeric fields do not parse, and
  forbids reading a missing field as zero. For a record without \<^verbatim>\<open>original_size\<close>, with
  \<^verbatim>\<open>size_matched\<close> \<^verbatim>\<open>"abc"\<close> and price \<^verbatim>\<open>"n/a"\<close>, \<open>getOrder\<close> returns an order: its original
  size is 0, its remaining size and its price are \<open>NaN\<close>.
\<close>

theorem C2_unparseable_fields_counterexample:
  "parseFloat ''abc'' = NaN \<and> parseFloat ''n/a'' = NaN
   \<and> fst (getOrder (stubClient echoResponse [] (Some (rawOrder None (Some ''abc'') (Some ''n/a'') None)))
            ''O1'' (Fin 0) [])
     = Inr (Some \<lparr>orderId = ''O1'', tokenId = ''T1'', side = ''BUY'', price = NaN,
                   originalSize = Fin 0, size_remaining = NaN, status = ''unknown'',
                   timestamp = Fin 1700000000,
                   raw = rawOrder None (Some ''abc'') (Some ''n/a'') None\<rparr>)"
  by (simp add: getOrder_def stubClient_def rawOrder_def parseFloat_defs)

section \<open>Resolution of the authentication mode and of the builder attribution\<close>

text \<open>
  Claim C1, as amended. Construction fails when neither the backend block nor the frontend
  block is present. When both are present the constructor raises no error for the
  ambiguity. With a non-empty private key it takes the custodial branch and ignores the
  frontend block: the client signs with the wallet of the key, and the only failures are
  the exceptions of the wallet library, on a key it refuses, and of the builder signing
  package, on a builder block it refuses; without a builder block an accepted key always
  gives a client. With an empty private key, a signer selects the externally signed mode,
  and without a signer construction fails as an invalid configuration.
\<close>

theorem C1_auth_mode_resolution:
  "(backend config = None \<and> frontend config = None \<longrightarrow>
      TradingClient_constructor newWallet builderConfigError config
        = Inl (Error (''Trading configuration must include either 'backend' or 'frontend' mode. '' @
                      ''For bots/servers use 'backend' with privateKey. '' @
                      ''For web apps use 'frontend' with signer.'')))
   \<and> (backend config = Some b \<and> frontend config = Some f \<and> privateKey b \<noteq> [] \<longrightarrow>
        (case TradingClient_constructor newWallet builderConfigError config of
           Inr tc \<Rightarrow>
             (\<exists>address. newWallet (privateKey b) = Inr address
                \<and> arg_signer (this_client tc) = WalletSigner (privateKey b) address
                \<and> this_walletAddress tc = Some address)
         | Inl e \<Rightarrow> newWallet (privateKey b) = Inl e \<or> (\<exists>a. builderConfigError a = Some e)))
   \<and> (backend config = Some b \<and> frontend config = Some f \<and> privateKey b \<noteq> []
        \<and> newWallet (privateKey b) = Inr address \<and> builder config = None \<longrightarrow>
        (\<exists>tc. TradingClient_constructor newWallet builderConfigError config = Inr tc))
   \<and> (backend config = Some b \<and> frontend config = Some f \<and> privateKey b = [] \<longrightarrow>
        (case signer f of
           Some s \<Rightarrow>
             (case TradingClient_constructor newWallet builderConfigError config of
                Inr tc \<Rightarrow> arg_signer (this_client tc) = ExternalSigner s
              | Inl e \<Rightarrow> (\<exists>a. builderConfigError a = Some e))
         | None \<Rightarrow>
             TradingClient_constructor newWallet builderConfigError config
               = Inl (Error ''Invalid trading configuration'')))"
  by (auto simp add: TradingClient_constructor_def backend_privateKey_def frontend_signer_def
      builder_field_def apiCreds_def Let_def Option.bind_eq_Some_conv
      split: sum.splits option.splits if_splits)

theorem C1_auth_mode_resolution_witness:
  "TradingClient_constructor stubWallet stubBuilderConfigError (sampleConfig None None None)
     = Inl (Error (''Trading configuration must include either 'backend' or 'frontend' mode. '' @
                   ''For bots/servers use 'backend' with privateKey. '' @
                   ''For web apps use 'frontend' with signer.''))
   \<and> (\<exists>tc. TradingClient_constructor stubWallet stubBuilderConfigError
               (sampleConfig None (Some \<lparr>privateKey = sampleKey\<rparr>)
                  (Some \<lparr>signer = Some \<lparr>getAddress = Some ''0xB0B''\<rparr>\<rparr>)) = Inr tc
          \<and> arg_signer (this_client tc) = WalletSigner sampleKey sampleAddress
          \<and> this_walletAddress tc = Some sampleAddress)
   \<and> (\<exists>tc. TradingClient_constructor stubWallet stubBuilderConfigError
               (sampleConfig None (Some \<lparr>privateKey = []\<rparr>)
                  (Some \<lparr>signer = Some \<lparr>getAddress = Some ''0xB0B''\<rparr>\<rparr>)) = Inr tc
          \<and> arg_signer (this_client tc) = ExternalSigner \<lparr>getAddress = Some ''0xB0B''\<rparr>)
   \<and> TradingClient_constructor stubWallet stubBuilderConfigError
        (sampleConfig None (Some \<lparr>privateKey = []\<rparr>) (Some \<lparr>signer = None\<rparr>))
     = Inl (Error ''Invalid trading configuration'')"
proof -
  let ?sg = "\<lparr>getAddress = Some ''0xB0B''\<rparr>"
  let ?both = "sampleConfig None (Some \<lparr>privateKey = sampleKey\<rparr>) (Some \<lparr>signer = Some ?sg\<rparr>)"
  let ?nokey = "sampleConfig None (Some \<lparr>privateKey = []\<rparr>) (Some \<lparr>signer = Some ?sg\<rparr>)"
  let ?nosigner = "sampleConfig None (Some \<lparr>privateKey = []\<rparr>) (Some \<lparr>signer = None\<rparr>)"
  have key: "sampleKey \<noteq> []" by (simp add: sampleKey_def)
  have neither: "TradingClient_constructor stubWallet stubBuilderConfigError (sampleConfig None None None)
     = Inl (Error (''Trading configuration must include either 'backend' or 'frontend' mode. '' @
                   ''For bots/servers use 'backend' with privateKey. '' @
                   ''For web apps use 'frontend' with signer.''))"
    using C1_auth_mode_resolution [where config = "sampleConfig None None None"
        and newWallet = stubWallet and builderConfigError = stubBuilderConfigError, THEN conjunct1]
    by (simp add: sampleConfig_def)
  obtain tc where tc: "TradingClient_constructor stubWallet stubBuilderConfigError ?both = Inr tc"
    using C1_auth_mode_resolution [where config = ?both and newWallet = stubWallet
        and builderConfigError = stubBuilderConfigError and b = "\<lparr>privateKey = sampleKey\<rparr>"
        and f = "\<lparr>signer = Some ?sg\<rparr>" and address = sampleAddress,
        THEN conjunct2, THEN conjunct2, THEN conjunct1] key
    by (auto simp add: sampleConfig_def stubWallet_def)
  have custodial: "arg_signer (this_client tc) = WalletSigner sampleKey sampleAddress
      \<and> this_walletAddress tc = Some sampleAddress"
    using C1_auth_mode_resolution [where config = ?both and newWallet = stubWallet
        and builderConfigError = stubBuilderConfigError and b = "\<lparr>privateKey = sampleKey\<rparr>"
        and f = "\<lparr>signer = Some ?sg\<rparr>", THEN conjunct2, THEN conjunct1] key tc
    by (auto simp add: sampleConfig_def stubWallet_def)
  obtain tc' where tc': "TradingClient_constructor stubWallet stubBuilderConfigError ?nokey = Inr tc'"
    by (simp add: TradingClient_constructor_def sampleConfig_def backend_privateKey_def
        frontend_signer_def builder_field_def)
  have external: "arg_signer (this_client tc') = ExternalSigner ?sg"
    using C1_auth_mode_resolution [where config = ?nokey and newWallet = stubWallet
        and builderConfigError = stubBuilderConfigError and b = "\<lparr>privateKey = []\<rparr>"
        and f = "\<lparr>signer = Some ?sg\<rparr>", THEN conjunct2, THEN conjunct2, THEN conjunct2] tc'
    by (simp add: sampleConfig_def)
  have invalid: "TradingClient_constructor stubWallet stubBuilderConfigError ?nosigner
      = Inl (Error ''Invalid trading configuration'')"
    using C1_auth_mode_resolution [where config = ?nosigner and newWallet = stubWallet
        and builderConfigError = stubBuilderConfigError and b = "\<lparr>privateKey = []\<rparr>"
        and f = "\<lparr>signer = None\<rparr>", THEN conjunct2, THEN conjunct2, THEN conjunct2]
    by (simp add: sampleConfig_def)
  show ?thesis
    using neither tc custodial tc' external invalid by simp
qed

text \<open>
  Claim C1, as stated, asks construction to fail when both blocks are present. With the
  private key of value 1 and a signer both configured, and no builder block, the
  constructor returns a client in custodial mode, whose address is the address of that
  key.
\<close>

theorem C1_both_blocks_counterexample:
  "backend (sampleConfig None (Some \<lparr>privateKey = sampleKey\<rparr>)
              (Some \<lparr>signer = Some \<lparr>getAddress = Some ''0xB0B''\<rparr>\<rparr>)) \<noteq> None
   \<and> frontend (sampleConfig None (Some \<lparr>privateKey = sampleKey\<rparr>)
              (Some \<lparr>signer = Some \<lparr>getAddress = Some ''0xB0B''\<rparr>\<rparr>)) \<noteq> None
   \<and> TradingClient_constructor stubWallet stubBuilderConfigError
        (sampleConfig None (Some \<lparr>privateKey = sampleKey\<rparr>)
           (Some \<lparr>signer = Some \<lparr>getAddress = Some ''0xB0B''\<rparr>\<rparr>))
     = Inr \<lparr>this_client = \<lparr>arg_host = ''https://clob.polymarket.com'', arg_chainId = Fin 137,
                            arg_signer = WalletSigner sampleKey sampleAddress, arg_creds = None,
                            arg_builderConfig = None\<rparr>,
            this_config = sampleConfig None (Some \<lparr>privateKey = sampleKey\<rparr>)
                            (Some \<lparr>signer = Some \<lparr>getAddress = Some ''0xB0B''\<rparr>\<rparr>),
            this_walletAddress = Some sampleAddress\<rparr>"
  by (simp add: TradingClient_constructor_def sampleConfig_def stubWallet_def backend_privateKey_def
      builder_field_def apiCreds_def sampleKey_def)

text \<open>
  Claim C4, as amended. For every configuration from which a client is constructed: a
  non-empty signing server URL gives the remote builder configuration in both modes, also
  when the local credentials are complete; without such a URL, complete local credentials
  (key, secret and passphrase, each non-empty) give the local builder configuration in
  custodial mode only; in externally signed mode, and with incomplete credentials, there is
  no builder configuration.
\<close>

theorem C4_builder_attribution_by_mode:
  assumes "TradingClient_constructor newWallet builderConfigError config = Inr tc"
  shows "(builder config = Some b \<and> signingServerUrl b = Some url \<and> url \<noteq> [] \<longrightarrow>
            arg_builderConfig (this_client tc) = Some (RemoteBuilderConfig url))
       \<and> (\<not> truthy_string (builder_field signingServerUrl config)
            \<and> arg_signer (this_client tc) = WalletSigner k a
            \<and> builder config = Some b
            \<and> key b = Some ke \<and> ke \<noteq> [] \<and> secret b = Some se \<and> se \<noteq> []
            \<and> passphrase b = Some pa \<and> pa \<noteq> [] \<longrightarrow>
            arg_builderConfig (this_client tc)
              = Some (LocalBuilderCreds \<lparr>creds_key = ke, creds_secret = se, creds_passphrase = pa\<rparr>))
       \<and> (\<not> truthy_string (builder_field signingServerUrl config)
            \<and> arg_signer (this_client tc) = ExternalSigner s \<longrightarrow>
            arg_builderConfig (this_client tc) = None)
       \<and> (\<not> truthy_string (builder_field signingServerUrl config)
            \<and> \<not> (truthy_string (builder_field key config)
                   \<and> truthy_string (builder_field secret config)
                   \<and> truthy_string (builder_field passphrase config)) \<longrightarrow>
            arg_builderConfig (this_client tc) = None)"
  using assms
  by (auto simp add: TradingClient_constructor_def builder_field_def apiCreds_def Let_def
      split: sum.splits option.splits if_splits)

theorem C4_builder_attribution_by_mode_witness:
  "(\<exists>tc. TradingClient_constructor stubWallet stubBuilderConfigError
            (sampleConfig (Some \<lparr>key = Some ''k'', secret = Some ''s'', passphrase = Some ''p'',
                                  signingServerUrl = Some ''https://sign.example''\<rparr>)
               (Some \<lparr>privateKey = sampleKey\<rparr>) None) = Inr tc
        \<and> arg_builderConfig (this_client tc) = Some (RemoteBuilderConfig ''https://sign.example''))
   \<and> (\<exists>tc. TradingClient_constructor stubWallet stubBuilderConfigError
            (sampleConfig (Some \<lparr>key = Some ''k'', secret = Some ''s'', passphrase = Some ''p'',
                                  signingServerUrl = None\<rparr>)
               (Some \<lparr>privateKey = sampleKey\<rparr>) None) = Inr tc
        \<and> arg_builderConfig (this_client tc)
            = Some (LocalBuilderCreds \<lparr>creds_key = ''k'', creds_secret = ''s'', creds_passphrase = ''p''\<rparr>))
   \<and> (\<exists>tc. TradingClient_constructor stubWallet stubBuilderConfigError
            (sampleConfig (Some \<lparr>key = Some ''k'', secret = Some ''s'', passphrase = Some ''p'',
                                  signingServerUrl = None\<rparr>)
               None (Some \<lparr>signer = Some \<lparr>getAddress = Some ''0xB0B''\<rparr>\<rparr>)) = Inr tc
        \<and> arg_builderConfig (this_client tc) = None)
   \<and> (\<exists>tc. TradingClient_constructor stubWallet stubBuilderConfigError
            (sampleConfig (Some \<lparr>key = Some ''k'', secret = None, passphrase = Some ''p'',
                                  signingServerUrl = None\<rparr>)
               (Some \<lparr>privateKey = sampleKey\<rparr>) None) = Inr tc
        \<and> arg_builderConfig (this_client tc) = None)"
proof -
  let ?remote = "sampleConfig (Some \<lparr>key = Some ''k'', secret = Some ''s'', passphrase = Some ''p'',
                     signingServerUrl = Some ''https://sign.example''\<rparr>)
                   (Some \<lparr>privateKey = sampleKey\<rparr>) None"
  let ?local = "sampleConfig (Some \<lparr>key = Some ''k'', secret = Some ''s'', passphrase = Some ''p'',
                     signingServerUrl = None\<rparr>)
                   (Some \<lparr>privateKey = sampleKey\<rparr>) None"
  let ?front = "sampleConfig (Some \<lparr>key = Some ''k'', secret = Some ''s'', passphrase = Some ''p'',
                     signingServerUrl = None\<rparr>)
                   None (Some \<lparr>signer = Some \<lparr>getAddress = Some ''0xB0B''\<rparr>\<rparr>)"
  let ?partial = "sampleConfig (Some \<lparr>key = Some ''k'', secret = None, passphrase = Some ''p'',
                     signingServerUrl = None\<rparr>)
                   (Some \<lparr>privateKey = sampleKey\<rparr>) None"
  obtain t1 where t1: "TradingClient_constructor stubWallet stubBuilderConfigError ?remote = Inr t1"
    by (simp add: TradingClient_constructor_def sampleConfig_def stubWallet_def stubBuilderConfigError_def
        backend_privateKey_def frontend_signer_def builder_field_def apiCreds_def sampleKey_def)
  obtain t2 where t2: "TradingClient_constructor stubWallet stubBuilderConfigError ?local = Inr t2"
    and s2: "arg_signer (this_client t2) = WalletSigner sampleKey sampleAddress"
    by (simp add: TradingClient_constructor_def sampleConfig_def stubWallet_def stubBuilderConfigError_def
        backend_privateKey_def frontend_signer_def builder_field_def apiCreds_def sampleKey_def)
  obtain t3 where t3: "TradingClient_constructor stubWallet stubBuilderConfigError ?front = Inr t3"
    and s3: "arg_signer (this_client t3) = ExternalSigner \<lparr>getAddress = Some ''0xB0B''\<rparr>"
    by (simp add: TradingClient_constructor_def sampleConfig_def stubWallet_def stubBuilderConfigError_def
        backend_privateKey_def frontend_signer_def builder_field_def apiCreds_def sampleKey_def)
  obtain t4 where t4: "TradingClient_constructor stubWallet stubBuilderConfigError ?partial = Inr t4"
    by (simp add: TradingClient_constructor_def sampleConfig_def stubWallet_def stubBuilderConfigError_def
        backend_privateKey_def frontend_signer_def builder_field_def apiCreds_def sampleKey_def)
  have "arg_builderConfig (this_client t1) = Some (RemoteBuilderConfig ''https://sign.example'')"
    using C4_builder_attribution_by_mode [OF t1, where url = "''https://sign.example''"
        and b = "\<lparr>key = Some ''k'', secret = Some ''s'', passphrase = Some ''p'',
                     signingServerUrl = Some ''https://sign.example''\<rparr>"]
    by (simp add: sampleConfig_def)
  moreover have "arg_builderConfig (this_client t2)
      = Some (LocalBuilderCreds \<lparr>creds_key = ''k'', creds_secret = ''s'', creds_passphrase = ''p''\<rparr>)"
    using C4_builder_attribution_by_mode [OF t2, where k = "sampleKey" and a = "sampleAddress"
        and ke = "''k''" and se = "''s''" and pa = "''p''"
        and b = "\<lparr>key = Some ''k'', secret = Some ''s'', passphrase = Some ''p'',
                     signingServerUrl = None\<rparr>"] s2
    by (simp add: sampleConfig_def builder_field_def)
  moreover have "arg_builderConfig (this_client t3) = None"
    using C4_builder_attribution_by_mode [OF t3, where s = "\<lparr>getAddress = Some ''0xB0B''\<rparr>"] s3
    by (simp add: sampleConfig_def builder_field_def)
  moreover have "arg_builderConfig (this_client t4) = None"
    using C4_builder_attribution_by_mode [OF t4]
    by (simp add: sampleConfig_def builder_field_def)
  ultimately show ?thesis
    using t1 t2 t3 t4 by simp
qed

text \<open>
  Claim C4, as stated, gives the local credentials in every mode. In externally signed mode
  with complete credentials and no signing server URL, the constructed client has no
  builder configuration.
\<close>

theorem C4_frontend_local_credentials_counterexample:
  "TradingClient_constructor stubWallet stubBuilderConfigError
     (sampleConfig
        (Some \<lparr>key = Some ''k'', secret = Some ''s'', passphrase = Some ''p'', signingServerUrl = None\<rparr>)
        None (Some \<lparr>signer = Some \<lparr>getAddress = Some ''0xB0B''\<rparr>\<rparr>))
     = Inr \<lparr>this_client = \<lparr>arg_host = ''https://clob.polymarket.com'', arg_chainId = Fin 137,
                            arg_signer = ExternalSigner \<lparr>getAddress = Some ''0xB0B''\<rparr>,
                            arg_creds = None, arg_builderConfig = None\<rparr>,
            this_config = sampleConfig
              (Some \<lparr>key = Some ''k'', secret = Some ''s'', passphrase = Some ''p'', signingServerUrl = None\<rparr>)
              None (Some \<lparr>signer = Some \<lparr>getAddress = Some ''0xB0B''\<rparr>\<rparr>),
            this_walletAddress = None\<rparr>
   \<and> (None :: SdkBuilderConfig option)
       \<noteq> Some (LocalBuilderCreds \<lparr>creds_key = ''k'', creds_secret = ''s'', creds_passphrase = ''p''\<rparr>)"
  by (simp add: TradingClient_constructor_def sampleConfig_def backend_privateKey_def
      frontend_signer_def builder_field_def)

end
